theory Spec2Isabelle
  imports Complex_Main "HOL-Library.Word" "HOL-Library.Sublist"
begin

section \<open>JavaScript values, strings and numbers\<close>

text \<open>
  The analyser of \<^verbatim>\<open>src/ai/riskAnalyzer.js\<close> is embedded function by function.
  A JavaScript string is a sequence of UTF-16 code units, so \<open>length\<close> is the
  \<^verbatim>\<open>.length\<close> of the source. JavaScript numbers are embedded as real numbers
  (exact arithmetic); the one place where the source can meet \<^verbatim>\<open>NaN\<close>, the
  \<^verbatim>\<open>parseFloat\<close> of an environment variable, keeps it as \<open>None\<close>.
\<close>

type_synonym code_unit = "16 word"
type_synonym jsstring = "code_unit list"

definition utf16 :: "string \<Rightarrow> jsstring" where
  "utf16 s = map (\<lambda>c. word_of_nat (of_char c)) s"

datatype js_value =
    JUndefined
  | JNull
  | JBoolean bool
  | JNumber real
  | JNaN
  | JString jsstring
  | JObject
  | JFunction

datatype js_type = TUndefined | TObject | TBoolean | TNumber | TString | TFunction

fun typeof :: "js_value \<Rightarrow> js_type" where
  "typeof JUndefined = TUndefined"
| "typeof JNull = TObject"
| "typeof (JBoolean b) = TBoolean"
| "typeof (JNumber r) = TNumber"
| "typeof JNaN = TNumber"
| "typeof (JString s) = TString"
| "typeof JObject = TObject"
| "typeof JFunction = TFunction"

text \<open>\<^verbatim>\<open>!v\<close> is the negation of \<open>truthy v\<close>.\<close>

fun truthy :: "js_value \<Rightarrow> bool" where
  "truthy JUndefined = False"
| "truthy JNull = False"
| "truthy (JBoolean b) = b"
| "truthy (JNumber r) = (r \<noteq> 0)"
| "truthy JNaN = False"
| "truthy (JString s) = (s \<noteq> [])"
| "truthy JObject = True"
| "truthy JFunction = True"

datatype js_error = TypeError

section \<open>Configuration read from \<^verbatim>\<open>process.env\<close>\<close>

text \<open>
  A threshold variable is unset (or the empty string, which \<^verbatim>\<open>||\<close> treats alike),
  or holds text that \<^verbatim>\<open>parseFloat\<close> reads as a number, or text it reads as
  \<^verbatim>\<open>NaN\<close>.
\<close>

datatype env_setting = Unset | Numeric real | NotNumeric

record process_env =
  RISK_THRESHOLD_LOW :: env_setting
  RISK_THRESHOLD_MEDIUM :: env_setting
  RISK_THRESHOLD_HIGH :: env_setting

text \<open>\<^verbatim>\<open>parseFloat(process.env.X || d)\<close>; \<open>None\<close> is \<^verbatim>\<open>NaN\<close>.\<close>

fun parseFloat_or :: "env_setting \<Rightarrow> real \<Rightarrow> real option" where
  "parseFloat_or Unset d = Some d"
| "parseFloat_or (Numeric r) d = Some r"
| "parseFloat_or NotNumeric d = None"

text \<open>Comparisons of a number with a possibly-\<^verbatim>\<open>NaN\<close> number: false on \<^verbatim>\<open>NaN\<close>.\<close>

fun js_ge :: "real \<Rightarrow> real option \<Rightarrow> bool" where
  "js_ge x (Some t) = (t \<le> x)"
| "js_ge x None = False"

fun js_lt :: "real \<Rightarrow> real option \<Rightarrow> bool" where
  "js_lt x (Some t) = (x < t)"
| "js_lt x None = False"

section \<open>Assessments and profiles\<close>

record category_match =
  count :: nat
  words :: "jsstring list"

record assessment =
  riskScore :: real
  sentiment :: real
  flags :: "string list"
  categories :: "string \<rightharpoonup> category_match"
  analyzedAt :: "string option"

record risk_profile =
  messageCount :: nat
  totalRiskScore :: real
  averageRiskScore :: real
  highRiskCount :: nat
  flagHistory :: "string \<rightharpoonup> nat"
  lastAnalyzed :: "string option"
  trendingUp :: bool

section \<open>\<^verbatim>\<open>updateRiskProfile\<close>\<close>

definition defaultProfile :: risk_profile where
  "defaultProfile =
     \<lparr> messageCount = 0, totalRiskScore = 0, averageRiskScore = 0, highRiskCount = 0,
       flagHistory = Map.empty, lastAnalyzed = None, trendingUp = False \<rparr>"

text \<open>
  One round of the loop over \<^verbatim>\<open>analysis.flags\<close>: an absent (or zero) entry is
  set to 0, then the entry is incremented.
\<close>

definition bumpFlag :: "(string \<rightharpoonup> nat) \<Rightarrow> string \<Rightarrow> (string \<rightharpoonup> nat)" where
  "bumpFlag h flag =
     (let h1 = (case h flag of None \<Rightarrow> h(flag \<mapsto> 0) | Some c \<Rightarrow> (if c = 0 then h(flag \<mapsto> 0) else h))
      in h1(flag \<mapsto> (case h1 flag of None \<Rightarrow> 0 | Some c \<Rightarrow> c) + 1))"

fun updateFlagHistory :: "(string \<rightharpoonup> nat) \<Rightarrow> string list \<Rightarrow> (string \<rightharpoonup> nat)" where
  "updateFlagHistory h [] = h"
| "updateFlagHistory h (flag # rest) = updateFlagHistory (bumpFlag h flag) rest"

definition decayFactor :: real where
  "decayFactor = 0.95"

text \<open>
  The second argument is the clock read by \<^verbatim>\<open>new Date().toISOString()\<close>; an absent
  profile (\<^verbatim>\<open>null\<close>) is \<open>None\<close>.
\<close>

definition updateRiskProfile ::
  "process_env \<Rightarrow> string \<Rightarrow> risk_profile option \<Rightarrow> assessment \<Rightarrow> risk_profile" where
  "updateRiskProfile env now userProfile analysis =
     (let p0 = (case userProfile of None \<Rightarrow> defaultProfile | Some p \<Rightarrow> p);
          p1 = p0\<lparr> messageCount := messageCount p0 + 1 \<rparr>;
          p2 = p1\<lparr> totalRiskScore := totalRiskScore p1 * decayFactor + riskScore analysis \<rparr>;
          p3 = p2\<lparr> averageRiskScore :=
                      totalRiskScore p2 / (real (messageCount p2) * decayFactor + 1) \<rparr>;
          p4 = (if js_ge (riskScore analysis) (parseFloat_or (RISK_THRESHOLD_HIGH env) 0.8)
                then p3\<lparr> highRiskCount := highRiskCount p3 + 1 \<rparr> else p3);
          p5 = p4\<lparr> flagHistory := updateFlagHistory (flagHistory p4) (flags analysis) \<rparr>;
          p6 = (if messageCount p5 > 5
                then (let recentRisk = riskScore analysis;
                          historicalAverage = averageRiskScore p5
                      in p5\<lparr> trendingUp := recentRisk > historicalAverage * 1.2 \<rparr>)
                else p5)
      in p6\<lparr> lastAnalyzed := Some now \<rparr>)"

text \<open>Reading a counter of the flag history, an absent entry counting as 0.\<close>

definition flagCount :: "risk_profile \<Rightarrow> string \<Rightarrow> nat" where
  "flagCount p f = (case flagHistory p f of None \<Rightarrow> 0 | Some c \<Rightarrow> c)"

text \<open>The profile after a sequence of (clock, assessment) updates.\<close>

fun applyUpdates :: "process_env \<Rightarrow> risk_profile \<Rightarrow> (string \<times> assessment) list \<Rightarrow> risk_profile" where
  "applyUpdates env p [] = p"
| "applyUpdates env p ((now, a) # rest) = applyUpdates env (updateRiskProfile env now (Some p) a) rest"

section \<open>\<^verbatim>\<open>getRiskLevel\<close> and the alert gate of \<^verbatim>\<open>index.js\<close>\<close>

datatype risk_level = Low | Medium | High | Critical

definition getRiskLevel :: "process_env \<Rightarrow> real \<Rightarrow> risk_level" where
  "getRiskLevel env score =
     (let low = parseFloat_or (RISK_THRESHOLD_LOW env) 0.3;
          medium = parseFloat_or (RISK_THRESHOLD_MEDIUM env) 0.6;
          high = parseFloat_or (RISK_THRESHOLD_HIGH env) 0.8
      in if js_lt score low then Low
         else if js_lt score medium then Medium
         else if js_lt score high then High
         else Critical)"

text \<open>The condition under which the message handler calls \<^verbatim>\<open>sendAlert\<close>.\<close>

definition shouldAlert :: "process_env \<Rightarrow> assessment \<Rightarrow> bool" where
  "shouldAlert env analysis = js_ge (riskScore analysis) (parseFloat_or (RISK_THRESHOLD_HIGH env) 0.8)"

section \<open>\<^verbatim>\<open>analyzeMessage\<close>\<close>

text \<open>
  Two primitives come from outside the repository and are parameters of the model: the
  \<^verbatim>\<open>score\<close> of \<^verbatim>\<open>sentiment.analyze(content)\<close> and the engine's
  \<^verbatim>\<open>String.prototype.toLowerCase\<close>.
\<close>

record platform =
  sentiment_analyze :: "jsstring \<Rightarrow> real"
  toLowerCase :: "jsstring \<Rightarrow> jsstring"

definition RISK_PATTERNS :: "(string \<times> jsstring list) list" where
  "RISK_PATTERNS =
     [(''violence'',
        [utf16 ''kill'', utf16 ''murder'', utf16 ''attack'', utf16 ''destroy'', utf16 ''bomb'',
         utf16 ''weapon'', utf16 ''gun'', utf16 ''shoot'', utf16 ''stab'', utf16 ''assault'',
         utf16 ''hurt'', utf16 ''harm'', utf16 ''fight'', utf16 ''war'', utf16 ''blood'',
         utf16 ''death'']),
      (''hate'',
        [utf16 ''hate'', utf16 ''racist'', utf16 ''nazi'', utf16 ''supremacist'',
         utf16 ''genocide'', utf16 ''ethnic cleansing'', utf16 ''inferior'', utf16 ''subhuman'',
         utf16 ''vermin'', utf16 ''scum'', utf16 ''trash'']),
      (''radicalization'',
        [utf16 ''jihad'', utf16 ''crusade'', utf16 ''holy war'', utf16 ''martyr'',
         utf16 ''extremist'', utf16 ''radical'', utf16 ''revolution'', utf16 ''uprising'',
         utf16 ''overthrow'', utf16 ''manifesto'', utf16 ''propaganda'']),
      (''threats'',
        [utf16 ''threat'', utf16 ''threaten'', utf16 ''going to'', utf16 ''will kill'',
         utf16 ''watch out'', utf16 ''pay for'', utf16 ''revenge'', utf16 ''retaliate'',
         utf16 ''get you'', utf16 ''coming for'']),
      (''toxicity'',
        [utf16 ''kys'', utf16 ''suicide'', utf16 ''die'', utf16 ''worthless'', utf16 ''pathetic'',
         utf16 ''loser'', utf16 ''idiot'', utf16 ''stupid'', utf16 ''dumb'', utf16 ''trash'',
         utf16 ''garbage'', [0x5E9F, 0x7269]])]"

text \<open>\<^verbatim>\<open>s.includes(k)\<close>: \<open>k\<close> occurs in \<open>s\<close> as a contiguous substring.\<close>

fun js_includes :: "'a list \<Rightarrow> 'a list \<Rightarrow> bool" where
  "js_includes [] k = (k = [])"
| "js_includes (c # cs) k = (prefix k (c # cs) \<or> js_includes cs k)"

text \<open>The local variables \<^verbatim>\<open>flags\<close>, \<^verbatim>\<open>categories\<close>, \<^verbatim>\<open>totalRisk\<close>.\<close>

record analysis_state =
  flags_acc :: "string list"
  categories_acc :: "string \<rightharpoonup> category_match"
  totalRisk :: real

definition add_sentiment_risk :: "real \<Rightarrow> analysis_state \<Rightarrow> analysis_state" where
  "add_sentiment_risk sentimentScore st =
     (let sentimentRisk = (if sentimentScore < 0 then min (\<bar>sentimentScore\<bar> / 20) 0.3 else 0)
      in st\<lparr> totalRisk := totalRisk st + sentimentRisk \<rparr>)"

text \<open>The inner loop over the keywords of one category, on \<open>(matchCount, matchedWords)\<close>.\<close>

fun match_keywords :: "jsstring \<Rightarrow> jsstring list \<Rightarrow> nat \<times> jsstring list \<Rightarrow> nat \<times> jsstring list" where
  "match_keywords lowerContent [] (matchCount, matchedWords) = (matchCount, matchedWords)"
| "match_keywords lowerContent (keyword # rest) (matchCount, matchedWords) =
     (if js_includes lowerContent keyword
      then match_keywords lowerContent rest (matchCount + 1, matchedWords @ [keyword])
      else match_keywords lowerContent rest (matchCount, matchedWords))"

definition check_category ::
  "jsstring \<Rightarrow> string \<times> jsstring list \<Rightarrow> analysis_state \<Rightarrow> analysis_state" where
  "check_category lowerContent entry st =
     (case entry of (category, keywords) \<Rightarrow>
        (case match_keywords lowerContent keywords (0, []) of (matchCount, matchedWords) \<Rightarrow>
           if matchCount > 0
           then st\<lparr> categories_acc :=
                       (categories_acc st)(category \<mapsto> \<lparr> count = matchCount, words = matchedWords \<rparr>),
                    flags_acc := flags_acc st @ [category],
                    totalRisk := totalRisk st + min (real matchCount * 0.15) 0.5 \<rparr>
           else st))"

fun check_patterns ::
  "jsstring \<Rightarrow> (string \<times> jsstring list) list \<Rightarrow> analysis_state \<Rightarrow> analysis_state" where
  "check_patterns lowerContent [] st = st"
| "check_patterns lowerContent (entry # rest) st =
     check_patterns lowerContent rest (check_category lowerContent entry st)"

text \<open>A code unit matched by \<^verbatim>\<open>/[A-Z]/\<close>.\<close>

definition isUpperAZ :: "code_unit \<Rightarrow> bool" where
  "isUpperAZ c = (0x41 \<le> c \<and> c \<le> 0x5A)"

definition check_caps :: "jsstring \<Rightarrow> analysis_state \<Rightarrow> analysis_state" where
  "check_caps content st =
     (let capsRatio = real (length (filter isUpperAZ content)) / real (length content)
      in if capsRatio > 0.5 \<and> length content > 10
         then st\<lparr> flags_acc := flags_acc st @ [''excessive_caps''],
                  totalRisk := totalRisk st + 0.1 \<rparr>
         else st)"

text \<open>
  The code units that \<^verbatim>\<open>.\<close> does not match (no \<^verbatim>\<open>s\<close> flag): LF, CR, U+2028
  and U+2029.
\<close>

definition lineTerminator :: "code_unit \<Rightarrow> bool" where
  "lineTerminator c = (c = 0x0A \<or> c = 0x0D \<or> c = 0x2028 \<or> c = 0x2029)"

text \<open>
  \<^verbatim>\<open>/(.)\1{4,}/.test(content)\<close>: at some position a code unit matched by \<^verbatim>\<open>.\<close>
  is followed by at least four copies of itself.
\<close>

fun repeat_regex_test :: "jsstring \<Rightarrow> bool" where
  "repeat_regex_test [] = False"
| "repeat_regex_test (c # cs) =
     ((\<not> lineTerminator c \<and> take 4 cs = replicate 4 c) \<or> repeat_regex_test cs)"

definition check_spam :: "jsstring \<Rightarrow> analysis_state \<Rightarrow> analysis_state" where
  "check_spam content st =
     (if repeat_regex_test content
      then st\<lparr> flags_acc := flags_acc st @ [''spam_pattern''],
               totalRisk := totalRisk st + 0.05 \<rparr>
      else st)"

text \<open>\<^verbatim>\<open>[...new Set(xs)]\<close>: the first occurrence of each element, in order.\<close>

fun set_spread :: "'a list \<Rightarrow> 'a list \<Rightarrow> 'a list" where
  "set_spread seen [] = seen"
| "set_spread seen (x # xs) = set_spread (if x \<in> set seen then seen else seen @ [x]) xs"

text \<open>The locals when control reaches the final clamp, for a string that passed the guard.\<close>

definition analyzeMessage_locals :: "platform \<Rightarrow> jsstring \<Rightarrow> analysis_state" where
  "analyzeMessage_locals pf content =
     (let lowerContent = toLowerCase pf content;
          st0 = \<lparr> flags_acc = [], categories_acc = Map.empty, totalRisk = 0 \<rparr>;
          sentimentScore = sentiment_analyze pf content;
          st1 = add_sentiment_risk sentimentScore st0;
          st2 = check_patterns lowerContent RISK_PATTERNS st1;
          st3 = check_caps content st2
      in check_spam content st3)"

definition analyzeMessage_body :: "platform \<Rightarrow> string \<Rightarrow> jsstring \<Rightarrow> assessment" where
  "analyzeMessage_body pf now content =
     (let st = analyzeMessage_locals pf content;
          score = min (totalRisk st) 1
      in \<lparr> riskScore = score,
           sentiment = sentiment_analyze pf content,
           flags = set_spread [] (flags_acc st),
           categories = categories_acc st,
           analyzedAt = Some now \<rparr>)"

definition zeroAssessment :: assessment where
  "zeroAssessment =
     \<lparr> riskScore = 0, sentiment = 0, flags = [], categories = Map.empty, analyzedAt = None \<rparr>"

text \<open>
  The guard, then the body. Past the guard the body calls string methods on
  \<^verbatim>\<open>content\<close>, which throw a \<^verbatim>\<open>TypeError\<close> on anything but a string.
\<close>

definition analyzeMessage :: "platform \<Rightarrow> string \<Rightarrow> js_value \<Rightarrow> js_error + assessment" where
  "analyzeMessage pf now content =
     (if \<not> truthy content \<or> typeof content \<noteq> TString then Inr zeroAssessment
      else (case content of
              JString s \<Rightarrow> Inr (analyzeMessage_body pf now s)
            | _ \<Rightarrow> Inl TypeError))"

text \<open>
  An engine's lower-casing restricted to the ASCII letters, and a neutral sentiment
  primitive, used to run the analyser on concrete ASCII messages.
\<close>

definition asciiLower :: "jsstring \<Rightarrow> jsstring" where
  "asciiLower s = map (\<lambda>c. if isUpperAZ c then c + 0x20 else c) s"

definition neutralPlatform :: platform where
  "neutralPlatform = \<lparr> sentiment_analyze = (\<lambda>s. 0), toLowerCase = asciiLower \<rparr>"

definition defaultEnv :: process_env where
  "defaultEnv = \<lparr> RISK_THRESHOLD_LOW = Unset, RISK_THRESHOLD_MEDIUM = Unset, RISK_THRESHOLD_HIGH = Unset \<rparr>"

text \<open>
  The reading of "some character repeats five or more times consecutively" over all code
  units, line terminators included, to compare with \<open>repeat_regex_test\<close>.
\<close>

fun spec_any_char_repeats5 :: "jsstring \<Rightarrow> bool" where
  "spec_any_char_repeats5 [] = False"
| "spec_any_char_repeats5 (c # cs) = (take 4 cs = replicate 4 c \<or> spec_any_char_repeats5 cs)"

text \<open>
  The bound that the aggregator keeps: the decayed sum is non-negative and at most the
  number of messages, and the average lies in the unit interval.
\<close>

definition profile_inv :: "risk_profile \<Rightarrow> bool" where
  "profile_inv p = (0 \<le> totalRiskScore p \<and> totalRiskScore p \<le> real (messageCount p) \<and>
                    0 \<le> averageRiskScore p \<and> averageRiskScore p \<le> 1)"

section \<open>Properties of the profile aggregator and the alert decision\<close>

lemma updateRiskProfile_absent:
  "updateRiskProfile env now None a = updateRiskProfile env now (Some defaultProfile) a"
  by (simp add: updateRiskProfile_def)

lemma updateRiskProfile_messageCount:
  "messageCount (updateRiskProfile env now (Some p) a) = messageCount p + 1"
  by (simp add: updateRiskProfile_def Let_def)

lemma updateRiskProfile_totalRiskScore:
  "totalRiskScore (updateRiskProfile env now (Some p) a) = totalRiskScore p * 0.95 + riskScore a"
  by (simp add: updateRiskProfile_def Let_def decayFactor_def)

lemma updateRiskProfile_averageRiskScore:
  "averageRiskScore (updateRiskProfile env now (Some p) a) =
     (totalRiskScore p * 0.95 + riskScore a) / (real (messageCount p + 1) * 0.95 + 1)"
  by (simp add: updateRiskProfile_def Let_def decayFactor_def)

lemma updateRiskProfile_highRiskCount:
  "highRiskCount (updateRiskProfile env now (Some p) a) =
     (if js_ge (riskScore a) (parseFloat_or (RISK_THRESHOLD_HIGH env) 0.8)
      then highRiskCount p + 1 else highRiskCount p)"
  by (simp add: updateRiskProfile_def Let_def)

lemma updateRiskProfile_flagHistory:
  "flagHistory (updateRiskProfile env now (Some p) a) = updateFlagHistory (flagHistory p) (flags a)"
  by (simp add: updateRiskProfile_def Let_def)

lemma updateRiskProfile_trendingUp:
  "trendingUp (updateRiskProfile env now (Some p) a) =
     (if messageCount p + 1 > 5
      then riskScore a > averageRiskScore (updateRiskProfile env now (Some p) a) * 1.2
      else trendingUp p)"
  by (simp add: updateRiskProfile_def Let_def)

text \<open>
  Claim C1. For every profile and every assessment, the updated profile has the message
  count incremented by one, the total equal to the old total times 0.95 plus the
  assessment's score, the average equal to the new total divided by the new count times
  0.95 plus one, and the high-risk count incremented exactly when the score reaches the
  configured high threshold (0.8 when the variable is unset). An absent profile is
  updated as the all-zero default profile.
\<close>

theorem updateRiskProfile_step:
  "(let p' = updateRiskProfile env now (Some p) a in
      messageCount p' = messageCount p + 1 \<and>
      totalRiskScore p' = totalRiskScore p * 0.95 + riskScore a \<and>
      averageRiskScore p' = totalRiskScore p' / (real (messageCount p') * 0.95 + 1) \<and>
      (RISK_THRESHOLD_HIGH env = Unset \<longrightarrow>
         highRiskCount p' = (if riskScore a \<ge> 0.8 then highRiskCount p + 1 else highRiskCount p)) \<and>
      (\<forall>t. RISK_THRESHOLD_HIGH env = Numeric t \<longrightarrow>
         highRiskCount p' = (if riskScore a \<ge> t then highRiskCount p + 1 else highRiskCount p)))
   \<and> updateRiskProfile env now None a = updateRiskProfile env now (Some defaultProfile) a"
  unfolding Let_def
  by (simp add: updateRiskProfile_messageCount updateRiskProfile_totalRiskScore
      updateRiskProfile_averageRiskScore updateRiskProfile_highRiskCount updateRiskProfile_absent)


theorem updateRiskProfile_step_witness:
  "(let p = \<lparr> messageCount = 5, totalRiskScore = 2.5, averageRiskScore = 0.5, highRiskCount = 1,
               flagHistory = Map.empty, lastAnalyzed = None, trendingUp = False \<rparr>;
        a = \<lparr> riskScore = 0.85, sentiment = 0, flags = [''violence''],
               categories = Map.empty, analyzedAt = None \<rparr>;
        p' = updateRiskProfile defaultEnv ''now'' (Some p) a
    in RISK_THRESHOLD_HIGH defaultEnv = Unset \<and> messageCount p' = 6 \<and>
       totalRiskScore p' = 3.225 \<and> averageRiskScore p' = 3.225 / 6.7 \<and> highRiskCount p' = 2)"
  using updateRiskProfile_step [where env = defaultEnv and now = "''now''" and p =
      "\<lparr> messageCount = 5, totalRiskScore = 2.5, averageRiskScore = 0.5, highRiskCount = 1,
         flagHistory = Map.empty, lastAnalyzed = None, trendingUp = False \<rparr>" and a =
      "\<lparr> riskScore = 0.85, sentiment = 0, flags = [''violence''],
         categories = Map.empty, analyzedAt = None \<rparr>"]
  by (simp add: Let_def defaultEnv_def)

text \<open>
  Claim C2, as stated, fails for a profile holding exactly five messages: the sixth
  message already passes the gate \<^verbatim>\<open>messageCount > 5\<close>, which is tested after the
  increment, and the trend flag is recomputed.
\<close>

theorem trend_gate_at_five_counterexample:
  "messageCount \<lparr> messageCount = 5, totalRiskScore = 0, averageRiskScore = 0, highRiskCount = 0,
                  flagHistory = Map.empty, lastAnalyzed = None, trendingUp = False \<rparr> \<le> 5
   \<and> trendingUp (updateRiskProfile defaultEnv ''now''
        (Some \<lparr> messageCount = 5, totalRiskScore = 0, averageRiskScore = 0, highRiskCount = 0,
                flagHistory = Map.empty, lastAnalyzed = None, trendingUp = False \<rparr>)
        \<lparr> riskScore = 1, sentiment = 0, flags = [], categories = Map.empty, analyzedAt = None \<rparr>)
     \<noteq> trendingUp \<lparr> messageCount = 5, totalRiskScore = 0, averageRiskScore = 0, highRiskCount = 0,
                  flagHistory = Map.empty, lastAnalyzed = None, trendingUp = False \<rparr>"
  by (simp add: updateRiskProfile_def Let_def decayFactor_def defaultEnv_def)

text \<open>
  Claim C2, amended. For every profile whose message count before the update is below 5
  (so that the count after the update is at most 5) the trend flag keeps its prior value
  whatever the score; and whenever the count after the update exceeds 5, the trend flag
  is true exactly when the score exceeds 1.2 times the newly updated average.
\<close>

theorem trend_gate:
  "(let p' = updateRiskProfile env now (Some p) a in
      (messageCount p < 5 \<longrightarrow> trendingUp p' = trendingUp p) \<and>
      (messageCount p' > 5 \<longrightarrow> trendingUp p' = (riskScore a > averageRiskScore p' * 1.2)))"
  unfolding Let_def
  by (simp add: updateRiskProfile_trendingUp updateRiskProfile_messageCount)

theorem trend_gate_witness:
  "(let p4 = \<lparr> messageCount = 4, totalRiskScore = 0, averageRiskScore = 0, highRiskCount = 0,
               flagHistory = Map.empty, lastAnalyzed = None, trendingUp = False \<rparr>;
        p10 = \<lparr> messageCount = 10, totalRiskScore = 3, averageRiskScore = 0.3, highRiskCount = 0,
               flagHistory = Map.empty, lastAnalyzed = None, trendingUp = False \<rparr>;
        a1 = \<lparr> riskScore = 1, sentiment = 0, flags = [], categories = Map.empty, analyzedAt = None \<rparr>;
        a8 = \<lparr> riskScore = 0.8, sentiment = 0, flags = [''violence''], categories = Map.empty,
               analyzedAt = None \<rparr>
    in messageCount p4 < 5 \<and> trendingUp (updateRiskProfile defaultEnv ''now'' (Some p4) a1) = False \<and>
       messageCount (updateRiskProfile defaultEnv ''now'' (Some p10) a8) > 5 \<and>
       trendingUp (updateRiskProfile defaultEnv ''now'' (Some p10) a8) = True)"
  using trend_gate [where env = defaultEnv and now = "''now''" and p = "\<lparr> messageCount = 4, totalRiskScore = 0, averageRiskScore = 0, highRiskCount = 0,
               flagHistory = Map.empty, lastAnalyzed = None, trendingUp = False \<rparr>"
        and a = "\<lparr> riskScore = 1, sentiment = 0, flags = [], categories = Map.empty, analyzedAt = None \<rparr>"]
    trend_gate [where env = defaultEnv and now = "''now''" and p = "\<lparr> messageCount = 10, totalRiskScore = 3, averageRiskScore = 0.3, highRiskCount = 0,
               flagHistory = Map.empty, lastAnalyzed = None, trendingUp = False \<rparr>"
        and a = "\<lparr> riskScore = 0.8, sentiment = 0, flags = [''violence''], categories = Map.empty,
               analyzedAt = None \<rparr>"]
  by (simp add: Let_def updateRiskProfile_messageCount updateRiskProfile_averageRiskScore)

text \<open>
  Claim C7. For thresholds \<open>low\<close>, \<open>medium\<close>, \<open>high\<close> read from the configuration (0.3,
  0.6 and 0.8 for unset variables), the alert gate holds exactly when the assessment's
  score is at least \<open>high\<close>, and the label of the assessment's score is Low below \<open>low\<close>,
  Medium on \<open>[low, medium)\<close>, High on \<open>[medium, high)\<close> and Critical from \<open>high\<close> upwards,
  the last two for increasing thresholds \<open>low \<le> medium \<le> high\<close>. The label is a function
  of the score and the thresholds alone; no profile enters it.
\<close>

theorem alert_and_severity_banding:
  "parseFloat_or (RISK_THRESHOLD_LOW env) 0.3 = Some low \<Longrightarrow>
   parseFloat_or (RISK_THRESHOLD_MEDIUM env) 0.6 = Some medium \<Longrightarrow>
   parseFloat_or (RISK_THRESHOLD_HIGH env) 0.8 = Some high \<Longrightarrow>
   (shouldAlert env a \<longleftrightarrow> high \<le> riskScore a) \<and>
   (getRiskLevel env (riskScore a) = Low \<longleftrightarrow> riskScore a < low) \<and>
   (getRiskLevel env (riskScore a) = Medium \<longleftrightarrow> low \<le> riskScore a \<and> riskScore a < medium) \<and>
   (low \<le> medium \<longrightarrow>
      (getRiskLevel env (riskScore a) = High \<longleftrightarrow> medium \<le> riskScore a \<and> riskScore a < high)) \<and>
   (low \<le> medium \<and> medium \<le> high \<longrightarrow>
      (getRiskLevel env (riskScore a) = Critical \<longleftrightarrow> high \<le> riskScore a)) \<and>
   (RISK_THRESHOLD_LOW env = Unset \<longrightarrow> low = 0.3) \<and>
   (RISK_THRESHOLD_MEDIUM env = Unset \<longrightarrow> medium = 0.6) \<and>
   (RISK_THRESHOLD_HIGH env = Unset \<longrightarrow> high = 0.8)"
  by (auto simp: shouldAlert_def getRiskLevel_def Let_def)

theorem alert_and_severity_banding_witness:
  "parseFloat_or (RISK_THRESHOLD_LOW defaultEnv) 0.3 = Some 0.3 \<and>
   parseFloat_or (RISK_THRESHOLD_MEDIUM defaultEnv) 0.6 = Some 0.6 \<and>
   parseFloat_or (RISK_THRESHOLD_HIGH defaultEnv) 0.8 = Some 0.8 \<and>
   (0.3::real) \<le> 0.6 \<and> (0.6::real) \<le> 0.8 \<and>
   shouldAlert defaultEnv
     \<lparr> riskScore = 0.8, sentiment = 0, flags = [], categories = Map.empty, analyzedAt = None \<rparr> \<and>
   getRiskLevel defaultEnv (riskScore
     \<lparr> riskScore = 0.8, sentiment = 0, flags = [], categories = Map.empty, analyzedAt = None \<rparr>) = Critical \<and>
   \<not> shouldAlert defaultEnv
     \<lparr> riskScore = 0.79, sentiment = 0, flags = [], categories = Map.empty, analyzedAt = None \<rparr> \<and>
   getRiskLevel defaultEnv (riskScore
     \<lparr> riskScore = 0.79, sentiment = 0, flags = [], categories = Map.empty, analyzedAt = None \<rparr>) = High"
proof -
  have l: "parseFloat_or (RISK_THRESHOLD_LOW defaultEnv) 0.3 = Some 0.3"
    and m: "parseFloat_or (RISK_THRESHOLD_MEDIUM defaultEnv) 0.6 = Some 0.6"
    and h: "parseFloat_or (RISK_THRESHOLD_HIGH defaultEnv) 0.8 = Some 0.8"
    by (simp_all add: defaultEnv_def)
  from alert_and_severity_banding [OF l m h,
      of "\<lparr> riskScore = 0.8, sentiment = 0, flags = [], categories = Map.empty, analyzedAt = None \<rparr>"]
    alert_and_severity_banding [OF l m h,
      of "\<lparr> riskScore = 0.79, sentiment = 0, flags = [], categories = Map.empty, analyzedAt = None \<rparr>"]
  show ?thesis using l m h by simp
qed

lemma bumpFlag_lookup:
  "(case bumpFlag h flag f of None \<Rightarrow> 0 | Some c \<Rightarrow> c) =
     (case h f of None \<Rightarrow> 0 | Some c \<Rightarrow> c) + (if f = flag then 1 else 0)"
  by (simp add: bumpFlag_def Let_def split: option.splits)

lemma updateFlagHistory_lookup:
  "(case updateFlagHistory h fs f of None \<Rightarrow> 0 | Some c \<Rightarrow> c) =
     (case h f of None \<Rightarrow> 0 | Some c \<Rightarrow> c) + count_list fs f"
proof (induction fs arbitrary: h)
  case Nil
  show ?case by simp
next
  case (Cons g gs)
  show ?case
    by (simp add: Cons.IH bumpFlag_lookup)
qed

lemma updateRiskProfile_flagCount:
  "flagCount (updateRiskProfile env now (Some p) a) f = flagCount p f + count_list (flags a) f"
  by (simp add: flagCount_def updateRiskProfile_flagHistory updateFlagHistory_lookup)

lemma flagCount_default: "flagCount defaultProfile f = 0"
  by (simp add: flagCount_def defaultProfile_def)

lemma profile_inv_default: "profile_inv defaultProfile"
  by (simp add: profile_inv_def defaultProfile_def)

lemma profile_inv_update:
  assumes inv: "profile_inv p" and lo: "0 \<le> riskScore a" and hi: "riskScore a \<le> 1"
  shows "profile_inv (updateRiskProfile env now (Some p) a)"
proof -
  let ?t = "totalRiskScore p" and ?n = "real (messageCount p)" and ?r = "riskScore a"
  from inv have t0: "0 \<le> ?t" and tn: "?t \<le> ?n"
    by (simp_all add: profile_inv_def)
  have n0: "0 \<le> ?n" by simp
  have t'0: "0 \<le> ?t * 0.95 + ?r" using t0 lo by simp
  have "?t * 0.95 \<le> ?n" using tn t0 by simp
  then have t'n: "?t * 0.95 + ?r \<le> ?n + 1" using hi by simp
  let ?m = "real (messageCount p + 1)"
  have m: "?m = ?n + 1" by simp
  have "0 \<le> ?m * 0.95" by simp
  then have den: "0 < ?m * 0.95 + 1" by linarith
  have "?t * 0.95 \<le> ?n * 0.95" using tn by simp
  then have num: "?t * 0.95 + ?r \<le> ?m * 0.95 + 1"
    unfolding m using hi by (simp add: field_simps)
  have avg0: "0 \<le> (?t * 0.95 + ?r) / (?m * 0.95 + 1)"
    using t'0 den by (rule divide_nonneg_pos)
  have avg1: "(?t * 0.95 + ?r) / (?m * 0.95 + 1) \<le> 1"
    using num den by (simp only: divide_le_eq_1_pos)
  show ?thesis
    unfolding profile_inv_def
    using t'0 t'n avg0 avg1
    by (simp only: updateRiskProfile_totalRiskScore updateRiskProfile_averageRiskScore
        updateRiskProfile_messageCount m simp_thms)
qed

lemma applyUpdates_inv:
  "profile_inv p \<Longrightarrow> \<forall>(now, a) \<in> set steps. 0 \<le> riskScore a \<and> riskScore a \<le> 1 \<Longrightarrow>
   profile_inv (applyUpdates env p steps)"
proof (induction steps arbitrary: p)
  case Nil
  then show ?case by simp
next
  case (Cons s steps)
  obtain now a where s: "s = (now, a)" by (cases s)
  from Cons.prems(2) s have "0 \<le> riskScore a" "riskScore a \<le> 1" by auto
  with Cons.prems(1) have "profile_inv (updateRiskProfile env now (Some p) a)"
    by (rule profile_inv_update)
  moreover from Cons.prems(2) have "\<forall>(now, a) \<in> set steps. 0 \<le> riskScore a \<and> riskScore a \<le> 1"
    by simp
  ultimately show ?case using s by (simp add: Cons.IH)
qed

lemma applyUpdates_append:
  "applyUpdates env p (xs @ ys) = applyUpdates env (applyUpdates env p xs) ys"
  by (induction xs arbitrary: p) auto

lemma applyUpdates_messageCount:
  "messageCount (applyUpdates env p steps) = messageCount p + length steps"
  by (induction steps arbitrary: p) (auto simp: updateRiskProfile_messageCount)

lemma applyUpdates_flagCount:
  "flagCount p f \<le> flagCount (applyUpdates env p steps) f"
proof (induction steps arbitrary: p)
  case Nil
  show ?case by simp
next
  case (Cons s steps)
  obtain now a where s: "s = (now, a)" by (cases s)
  have "flagCount p f \<le> flagCount (updateRiskProfile env now (Some p) a) f"
    by (simp add: updateRiskProfile_flagCount)
  also have "\<dots> \<le> flagCount (applyUpdates env (updateRiskProfile env now (Some p) a) steps) f"
    by (rule Cons.IH)
  finally show ?case using s by simp
qed

text \<open>
  Claim C4. Along every finite sequence of updates that starts from the all-zero default
  profile with scores in \<open>[0, 1]\<close>: between any profile reached and any later one the
  message count does not decrease and no flag counter decreases, and the average of
  every profile reached lies in \<open>[0, 1]\<close>.
\<close>

theorem reachable_profile_invariant:
  assumes "\<forall>(now, a) \<in> set (xs @ ys). 0 \<le> riskScore a \<and> riskScore a \<le> 1"
  shows "(let p = applyUpdates env defaultProfile xs;
              p' = applyUpdates env defaultProfile (xs @ ys)
          in messageCount p \<le> messageCount p' \<and>
             (\<forall>f. flagCount p f \<le> flagCount p' f) \<and>
             0 \<le> averageRiskScore p \<and> averageRiskScore p \<le> 1 \<and>
             0 \<le> averageRiskScore p' \<and> averageRiskScore p' \<le> 1)"
proof -
  from assms have xs: "\<forall>(now, a) \<in> set xs. 0 \<le> riskScore a \<and> riskScore a \<le> 1"
    by auto
  have "profile_inv (applyUpdates env defaultProfile xs)"
    using profile_inv_default xs by (rule applyUpdates_inv)
  moreover have "profile_inv (applyUpdates env defaultProfile (xs @ ys))"
    using profile_inv_default assms by (rule applyUpdates_inv)
  ultimately show ?thesis
    unfolding Let_def
    by (simp add: profile_inv_def applyUpdates_append applyUpdates_messageCount
        applyUpdates_flagCount)
qed

theorem reachable_profile_invariant_witness:
  "(let a1 = \<lparr> riskScore = 1, sentiment = 0, flags = [''violence''], categories = Map.empty,
               analyzedAt = None \<rparr>;
        a2 = \<lparr> riskScore = 0.5, sentiment = 0, flags = [''violence'', ''hate''],
               categories = Map.empty, analyzedAt = None \<rparr>;
        p = applyUpdates defaultEnv defaultProfile [(''t1'', a1)];
        p' = applyUpdates defaultEnv defaultProfile ([(''t1'', a1)] @ [(''t2'', a2)])
    in (\<forall>(now, a) \<in> set ([(''t1'', a1)] @ [(''t2'', a2)]). 0 \<le> riskScore a \<and> riskScore a \<le> 1) \<and>
       messageCount p = 1 \<and> messageCount p' = 2 \<and>
       flagCount p ''violence'' = 1 \<and> flagCount p' ''violence'' = 2 \<and>
       flagCount p ''hate'' \<le> flagCount p' ''hate'' \<and>
       averageRiskScore p = 1 / 1.95 \<and> averageRiskScore p \<le> 1 \<and>
       0 \<le> averageRiskScore p' \<and> averageRiskScore p' \<le> 1)"
proof -
  let ?a1 = "\<lparr> riskScore = 1, sentiment = 0, flags = [''violence''], categories = Map.empty,
               analyzedAt = None \<rparr>"
  let ?a2 = "\<lparr> riskScore = 0.5, sentiment = 0, flags = [''violence'', ''hate''],
               categories = Map.empty, analyzedAt = None \<rparr>"
  have h: "\<forall>(now, a) \<in> set ([(''t1'', ?a1)] @ [(''t2'', ?a2)]). 0 \<le> riskScore a \<and> riskScore a \<le> 1"
    by simp
  from reachable_profile_invariant [OF h, of defaultEnv] h show ?thesis
    by (simp add: Let_def updateRiskProfile_messageCount updateRiskProfile_flagCount
        updateRiskProfile_averageRiskScore updateRiskProfile_totalRiskScore
        flagCount_default)
     (simp add: defaultProfile_def)
qed

section \<open>Properties of the message classifier\<close>

lemma js_includes_sublist: "js_includes s k \<longleftrightarrow> sublist k s"
  by (induction s) (simp_all add: sublist_Cons_right)

lemma match_keywords_filter:
  "match_keywords lc ks (mc, mw) =
     (mc + length (filter (\<lambda>t. sublist t lc) ks), mw @ filter (\<lambda>t. sublist t lc) ks)"
  by (induction ks arbitrary: mc mw) (simp_all add: js_includes_sublist)

lemma check_category_eq:
  "check_category lc (c, ks) st =
     (let matched = filter (\<lambda>t. sublist t lc) ks in
      if matched \<noteq> []
      then st\<lparr> categories_acc := (categories_acc st)(c \<mapsto> \<lparr> count = length matched, words = matched \<rparr>),
               flags_acc := flags_acc st @ [c],
               totalRisk := totalRisk st + min (real (length matched) * 0.15) 0.5 \<rparr>
      else st)"
  by (simp add: check_category_def match_keywords_filter Let_def)

lemma check_patterns_totalRisk:
  "totalRisk (check_patterns lc ps st) =
     totalRisk st + (\<Sum>(c, ks) \<leftarrow> ps. min (real (length (filter (\<lambda>t. sublist t lc) ks)) * 0.15) 0.5)"
proof (induction ps arbitrary: st)
  case Nil
  show ?case by simp
next
  case (Cons e ps)
  obtain c ks where e: "e = (c, ks)" by (cases e)
  show ?case
    by (simp add: e Cons.IH check_category_eq Let_def)
qed

lemma check_patterns_flags:
  "flags_acc (check_patterns lc ps st) =
     flags_acc st @ map fst (filter (\<lambda>(c, ks). filter (\<lambda>t. sublist t lc) ks \<noteq> []) ps)"
proof (induction ps arbitrary: st)
  case Nil
  show ?case by simp
next
  case (Cons e ps)
  obtain c ks where e: "e = (c, ks)" by (cases e)
  show ?case
    by (simp add: e Cons.IH check_category_eq Let_def)
qed

lemma check_patterns_categories_other:
  "c \<notin> fst ` set ps \<Longrightarrow> categories_acc (check_patterns lc ps st) c = categories_acc st c"
proof (induction ps arbitrary: st)
  case Nil
  show ?case by simp
next
  case (Cons e ps)
  obtain d ks where e: "e = (d, ks)" by (cases e)
  from Cons.prems e have "c \<noteq> d" "c \<notin> fst ` set ps" by auto
  then show ?case
    by (simp add: e Cons.IH check_category_eq Let_def)
qed

lemma check_patterns_categories:
  "distinct (map fst ps) \<Longrightarrow> (c, ks) \<in> set ps \<Longrightarrow>
   categories_acc (check_patterns lc ps st) c =
     (let matched = filter (\<lambda>t. sublist t lc) ks in
      if matched \<noteq> [] then Some \<lparr> count = length matched, words = matched \<rparr>
      else categories_acc st c)"
proof (induction ps arbitrary: st)
  case Nil
  then show ?case by simp
next
  case (Cons e ps)
  obtain d ks' where e: "e = (d, ks')" by (cases e)
  show ?case
  proof (cases "(c, ks) = e")
    case True
    with e have cd: "d = c" "ks' = ks" by simp_all
    from Cons.prems(1) e cd have "c \<notin> fst ` set ps" by simp
    then show ?thesis
      by (simp add: e cd check_patterns_categories_other check_category_eq Let_def)
  next
    case False
    with Cons.prems(2) have mem: "(c, ks) \<in> set ps" by simp
    from Cons.prems(1) have dis: "distinct (map fst ps)" by simp
    from mem Cons.prems(1) e have "c \<noteq> d" by force
    then show ?thesis
      by (simp add: e Cons.IH [OF dis mem] check_category_eq Let_def)
  qed
qed

lemma check_caps_totalRisk:
  "totalRisk (check_caps content st) =
     totalRisk st + (if real (length (filter isUpperAZ content)) / real (length content) > 0.5
                        \<and> length content > 10 then 0.1 else 0)"
  by (simp add: check_caps_def Let_def)

lemma check_caps_flags:
  "flags_acc (check_caps content st) =
     flags_acc st @ (if real (length (filter isUpperAZ content)) / real (length content) > 0.5
                        \<and> length content > 10 then [''excessive_caps''] else [])"
  by (simp add: check_caps_def Let_def)

lemma check_caps_categories: "categories_acc (check_caps content st) = categories_acc st"
  by (simp add: check_caps_def Let_def)

lemma check_spam_totalRisk:
  "totalRisk (check_spam content st) = totalRisk st + (if repeat_regex_test content then 0.05 else 0)"
  by (simp add: check_spam_def)

lemma check_spam_flags:
  "flags_acc (check_spam content st) =
     flags_acc st @ (if repeat_regex_test content then [''spam_pattern''] else [])"
  by (simp add: check_spam_def)

lemma check_spam_categories: "categories_acc (check_spam content st) = categories_acc st"
  by (simp add: check_spam_def)

lemma add_sentiment_risk_totalRisk:
  "totalRisk (add_sentiment_risk s st) =
     totalRisk st + (if s < 0 then min (\<bar>s\<bar> / 20) 0.3 else 0)"
  by (simp add: add_sentiment_risk_def Let_def)

lemma add_sentiment_risk_flags: "flags_acc (add_sentiment_risk s st) = flags_acc st"
  by (simp add: add_sentiment_risk_def Let_def)

lemma add_sentiment_risk_categories: "categories_acc (add_sentiment_risk s st) = categories_acc st"
  by (simp add: add_sentiment_risk_def Let_def)

lemma set_set_spread: "set (set_spread seen xs) = set seen \<union> set xs"
  by (induction xs arbitrary: seen) auto

lemma prefix_replicate_take: "prefix (replicate n c) xs \<longleftrightarrow> take n xs = replicate n c"
  by (metis length_replicate prefix_def append_eq_conv_conj append_take_drop_id)

lemma repeat_regex_test_iff:
  "repeat_regex_test s \<longleftrightarrow> (\<exists>c. \<not> lineTerminator c \<and> sublist (replicate 5 c) s)"
proof (induction s)
  case Nil
  show ?case by simp
next
  case (Cons x xs)
  have five: "replicate 5 c = c # replicate 4 c" for c :: code_unit
    by (simp add: numeral_eq_Suc)
  have "prefix (replicate 5 c) (x # xs) \<longleftrightarrow> c = x \<and> take 4 xs = replicate 4 x" for c
    unfolding five by (auto simp: prefix_replicate_take)
  then show ?case
    using Cons.IH by (auto simp: sublist_Cons_right)
qed

lemma replicate4: "replicate 4 c = [c, c, c, c]"
  by (simp add: numeral_eq_Suc)

lemma RISK_PATTERNS_keys:
  "map fst RISK_PATTERNS = [''violence'', ''hate'', ''radicalization'', ''threats'', ''toxicity'']"
  by (simp add: RISK_PATTERNS_def)

lemma RISK_PATTERNS_distinct_keys: "distinct (map fst RISK_PATTERNS)"
  by (simp add: RISK_PATTERNS_keys)

lemma RISK_PATTERNS_distinct_terms: "(c, ks) \<in> set RISK_PATTERNS \<Longrightarrow> distinct ks"
  by (auto simp: RISK_PATTERNS_def utf16_def)

lemma analyzeMessage_locals_totalRisk:
  "totalRisk (analyzeMessage_locals pf content) =
     (if sentiment_analyze pf content < 0 then min (\<bar>sentiment_analyze pf content\<bar> / 20) 0.3 else 0)
     + (\<Sum>(c, ks) \<leftarrow> RISK_PATTERNS.
          min (real (length (filter (\<lambda>t. sublist t (toLowerCase pf content)) ks)) * 0.15) 0.5)
     + (if real (length (filter isUpperAZ content)) / real (length content) > 0.5
           \<and> length content > 10 then 0.1 else 0)
     + (if repeat_regex_test content then 0.05 else 0)"
  by (simp only: analyzeMessage_locals_def Let_def check_spam_totalRisk check_caps_totalRisk
      check_patterns_totalRisk add_sentiment_risk_totalRisk analysis_state.simps add_0)

lemma analyzeMessage_locals_flags:
  "flags_acc (analyzeMessage_locals pf content) =
     map fst (filter (\<lambda>(c, ks). filter (\<lambda>t. sublist t (toLowerCase pf content)) ks \<noteq> []) RISK_PATTERNS)
     @ (if real (length (filter isUpperAZ content)) / real (length content) > 0.5
           \<and> length content > 10 then [''excessive_caps''] else [])
     @ (if repeat_regex_test content then [''spam_pattern''] else [])"
  by (simp only: analyzeMessage_locals_def Let_def check_spam_flags check_caps_flags
      check_patterns_flags add_sentiment_risk_flags analysis_state.simps append_Nil append_assoc)

lemma analyzeMessage_locals_categories:
  "(c, ks) \<in> set RISK_PATTERNS \<Longrightarrow>
   categories_acc (analyzeMessage_locals pf content) c =
     (let matched = filter (\<lambda>t. sublist t (toLowerCase pf content)) ks in
      if matched \<noteq> [] then Some \<lparr> count = length matched, words = matched \<rparr> else None)"
  by (simp add: analyzeMessage_locals_def Let_def check_spam_categories check_caps_categories
      check_patterns_categories [OF RISK_PATTERNS_distinct_keys] add_sentiment_risk_categories)

lemma sum_list_nonneg_pairs:
  "(\<And>c ks. 0 \<le> f c ks) \<Longrightarrow> 0 \<le> (\<Sum>(c, ks) \<leftarrow> ps. (f c ks :: real))"
  by (induction ps) (auto simp: add_nonneg_nonneg)

lemma analyzeMessage_locals_nonneg: "0 \<le> totalRisk (analyzeMessage_locals pf content)"
proof -
  have "0 \<le> (\<Sum>(c, ks) \<leftarrow> RISK_PATTERNS.
          min (real (length (filter (\<lambda>t. sublist t (toLowerCase pf content)) ks)) * 0.15) 0.5)"
    by (rule sum_list_nonneg_pairs) simp
  then show ?thesis
    unfolding analyzeMessage_locals_totalRisk by (simp add: add_nonneg_nonneg)
qed

lemma analyzeMessage_string:
  "s \<noteq> [] \<Longrightarrow> analyzeMessage pf now (JString s) = Inr (analyzeMessage_body pf now s)"
  by (simp add: analyzeMessage_def)

lemma analyzeMessage_degenerate:
  "v = JUndefined \<or> v = JNull \<or> v = JString [] \<or> typeof v \<noteq> TString \<Longrightarrow>
   analyzeMessage pf now v = Inr zeroAssessment"
  by (auto simp: analyzeMessage_def)

lemma analyzeMessage_cases:
  "(\<exists>s. s \<noteq> [] \<and> v = JString s \<and> analyzeMessage pf now v = Inr (analyzeMessage_body pf now s))
   \<or> ((v = JString [] \<or> typeof v \<noteq> TString) \<and> analyzeMessage pf now v = Inr zeroAssessment)"
  by (cases v) (simp_all add: analyzeMessage_def)

lemma heuristic_tags_not_categories:
  "''excessive_caps'' \<notin> set (map fst RISK_PATTERNS)" "''spam_pattern'' \<notin> set (map fst RISK_PATTERNS)"
  by (simp_all add: RISK_PATTERNS_keys)

lemma RISK_PATTERNS_key_not_tag:
  assumes "(c, ks) \<in> set RISK_PATTERNS"
  shows "c \<noteq> ''excessive_caps''" and "c \<noteq> ''spam_pattern''"
proof -
  from assms have "c \<in> set (map fst RISK_PATTERNS)" by force
  then show "c \<noteq> ''excessive_caps''" and "c \<noteq> ''spam_pattern''"
    using heuristic_tags_not_categories by blast+
qed

lemma RISK_PATTERNS_same_key:
  "(c, ks) \<in> set RISK_PATTERNS \<Longrightarrow> (c, ks') \<in> set RISK_PATTERNS \<Longrightarrow> ks = ks'"
  using RISK_PATTERNS_distinct_keys by (rule eq_key_imp_eq_value)

lemma flags_body_mem:
  "f \<in> set (flags (analyzeMessage_body pf now content)) \<longleftrightarrow>
     (\<exists>ks. (f, ks) \<in> set RISK_PATTERNS \<and> filter (\<lambda>t. sublist t (toLowerCase pf content)) ks \<noteq> [])
     \<or> (f = ''excessive_caps'' \<and> real (length (filter isUpperAZ content)) / real (length content) > 0.5
           \<and> length content > 10)
     \<or> (f = ''spam_pattern'' \<and> repeat_regex_test content)"
proof -
  let ?M = "\<lambda>ks. filter (\<lambda>t. sublist t (toLowerCase pf content)) ks \<noteq> []"
  have set_eq: "set (flags (analyzeMessage_body pf now content)) = set (flags_acc (analyzeMessage_locals pf content))"
    by (simp add: analyzeMessage_body_def Let_def set_set_spread)
  have cat: "f \<in> set (map fst (filter (\<lambda>(c, ks). ?M ks) RISK_PATTERNS)) \<longleftrightarrow>
             (\<exists>ks. (f, ks) \<in> set RISK_PATTERNS \<and> ?M ks)"
    by force
  show ?thesis
    unfolding set_eq analyzeMessage_locals_flags set_append Un_iff cat
    by (simp split: if_splits)
qed

lemma category_flag_iff:
  assumes "(c, ks) \<in> set RISK_PATTERNS"
  shows "c \<in> set (flags (analyzeMessage_body pf now content)) \<longleftrightarrow>
         filter (\<lambda>t. sublist t (toLowerCase pf content)) ks \<noteq> []"
proof -
  let ?M = "\<lambda>ks. filter (\<lambda>t. sublist t (toLowerCase pf content)) ks \<noteq> []"
  have "(\<exists>ks'. (c, ks') \<in> set RISK_PATTERNS \<and> ?M ks') \<longleftrightarrow> ?M ks"
    using assms RISK_PATTERNS_same_key [OF assms] by blast
  then show ?thesis
    unfolding flags_body_mem using RISK_PATTERNS_key_not_tag [OF assms] by simp
qed

lemma tag_not_category:
  "\<not> (\<exists>ks. (''excessive_caps'', ks) \<in> set RISK_PATTERNS \<and> P ks)"
  "\<not> (\<exists>ks. (''spam_pattern'', ks) \<in> set RISK_PATTERNS \<and> P ks)"
  using RISK_PATTERNS_key_not_tag by blast+

lemma caps_flag_iff:
  "''excessive_caps'' \<in> set (flags (analyzeMessage_body pf now content)) \<longleftrightarrow>
     real (length (filter isUpperAZ content)) / real (length content) > 0.5 \<and> length content > 10"
  unfolding flags_body_mem by (simp only: tag_not_category simp_thms) simp

lemma spam_flag_iff:
  "''spam_pattern'' \<in> set (flags (analyzeMessage_body pf now content)) \<longleftrightarrow>
     repeat_regex_test content"
  unfolding flags_body_mem by (simp only: tag_not_category simp_thms) simp

lemma card_matching_terms:
  "distinct ks \<Longrightarrow> card {t \<in> set ks. P t} = length (filter P ks)"
proof -
  assume "distinct ks"
  then have "distinct (filter P ks)" by simp
  then have "card (set (filter P ks)) = length (filter P ks)" by (rule distinct_card)
  then show ?thesis by simp
qed

lemma sum_list_cong_pairs:
  "(\<And>c ks. (c, ks) \<in> set ps \<Longrightarrow> f c ks = g c ks) \<Longrightarrow>
   (\<Sum>(c, ks) \<leftarrow> ps. (f c ks :: real)) = (\<Sum>(c, ks) \<leftarrow> ps. g c ks)"
  by (induction ps) auto

subsection \<open>The guard\<close>

text \<open>
  Claim C8. \<^verbatim>\<open>analyzeMessage\<close> returns an assessment for every argument and never
  raises; for an absent (\<^verbatim>\<open>undefined\<close>, \<^verbatim>\<open>null\<close>), empty-string or non-string
  argument the result is the zero assessment, whose score is 0 and whose flags are empty.
\<close>

theorem analyzeMessage_never_raises:
  "(\<exists>a. analyzeMessage pf now v = Inr a) \<and>
   (v = JUndefined \<or> v = JNull \<or> v = JString [] \<or> typeof v \<noteq> TString \<longrightarrow>
      analyzeMessage pf now v = Inr zeroAssessment) \<and>
   riskScore zeroAssessment = 0 \<and> flags zeroAssessment = []"
  using analyzeMessage_cases [of v pf now]
  by (auto simp: analyzeMessage_degenerate zeroAssessment_def)

theorem analyzeMessage_never_raises_witness:
  "analyzeMessage neutralPlatform ''now'' JNull = Inr zeroAssessment \<and>
   analyzeMessage neutralPlatform ''now'' JUndefined = Inr zeroAssessment \<and>
   analyzeMessage neutralPlatform ''now'' (JString []) = Inr zeroAssessment \<and>
   analyzeMessage neutralPlatform ''now'' (JNumber 42) = Inr zeroAssessment \<and>
   riskScore zeroAssessment = 0 \<and> flags zeroAssessment = []"
  using analyzeMessage_never_raises [of neutralPlatform "''now''" JNull] analyzeMessage_never_raises [of neutralPlatform "''now''" JUndefined]
    analyzeMessage_never_raises [of neutralPlatform "''now''" "JString []"] analyzeMessage_never_raises [of neutralPlatform "''now''" "JNumber 42"]
  by simp

text \<open>
  Claim C10. The zero assessment returned for absent, empty or non-string content has the
  four fields score, sentiment, flags and categories and no \<^verbatim>\<open>analyzedAt\<close>, while
  the assessment of every string that passes the guard carries the clock reading in
  \<^verbatim>\<open>analyzedAt\<close>.
\<close>

theorem analyzedAt_presence:
  "zeroAssessment = \<lparr> riskScore = 0, sentiment = 0, flags = [], categories = Map.empty,
                      analyzedAt = None \<rparr> \<and>
   (v = JUndefined \<or> v = JNull \<or> v = JString [] \<or> typeof v \<noteq> TString \<longrightarrow>
      (\<exists>a. analyzeMessage pf now v = Inr a \<and> analyzedAt a = None)) \<and>
   (\<forall>s. v = JString s \<and> s \<noteq> [] \<longrightarrow>
      (\<exists>a. analyzeMessage pf now v = Inr a \<and> analyzedAt a = Some now))"
  by (auto simp: analyzeMessage_degenerate analyzeMessage_string zeroAssessment_def
      analyzeMessage_body_def Let_def)

theorem analyzedAt_presence_witness:
  "(\<exists>a. analyzeMessage neutralPlatform ''2024-01-01T00:00:00.000Z'' JNull = Inr a \<and> analyzedAt a = None) \<and>
   utf16 ''hi'' \<noteq> [] \<and>
   (\<exists>a. analyzeMessage neutralPlatform ''2024-01-01T00:00:00.000Z'' (JString (utf16 ''hi'')) = Inr a \<and>
        analyzedAt a = Some ''2024-01-01T00:00:00.000Z'')"
proof -
  have ne: "utf16 ''hi'' \<noteq> []" by (simp add: utf16_def)
  from analyzedAt_presence [of JNull neutralPlatform "''2024-01-01T00:00:00.000Z''"]
    analyzedAt_presence [of "JString (utf16 ''hi'')" neutralPlatform "''2024-01-01T00:00:00.000Z''"] ne
  show ?thesis by blast
qed

subsection \<open>The risk accumulator\<close>

text \<open>
  Claim C9. The contribution of the sentiment channel to the accumulator (the total with
  the polarity \<open>p\<close> of the sentiment primitive, minus the total had the polarity been
  neutral) is \<open>min (\<bar>p\<bar> / 20) 0.3\<close> when \<open>p < 0\<close> and 0 otherwise; it never exceeds
  0.3, and it is what the sentiment step adds to any accumulator.
\<close>

theorem sentiment_contribution:
  "(let p = sentiment_analyze pf content;
        contribution = totalRisk (analyzeMessage_locals pf content)
                       - totalRisk (analyzeMessage_locals (pf\<lparr> sentiment_analyze := (\<lambda>s. 0) \<rparr>) content)
    in (p < 0 \<longrightarrow> contribution = min (\<bar>p\<bar> / 20) 0.3) \<and>
       (\<not> p < 0 \<longrightarrow> contribution = 0) \<and>
       contribution \<le> 0.3 \<and>
       (\<forall>st. totalRisk (add_sentiment_risk p st) = totalRisk st + contribution))"
  unfolding Let_def
  by (simp add: analyzeMessage_locals_totalRisk add_sentiment_risk_totalRisk min_def)

theorem sentiment_contribution_witness:
  "(let pf = \<lparr> sentiment_analyze = (\<lambda>s. - 4), toLowerCase = asciiLower \<rparr>;
        pf' = \<lparr> sentiment_analyze = (\<lambda>s. - 10), toLowerCase = asciiLower \<rparr>;
        content = utf16 ''awful''
    in sentiment_analyze pf content < 0 \<and>
       totalRisk (analyzeMessage_locals pf content)
         - totalRisk (analyzeMessage_locals (pf\<lparr> sentiment_analyze := (\<lambda>s. 0) \<rparr>) content) = 0.2 \<and>
       totalRisk (analyzeMessage_locals pf' content)
         - totalRisk (analyzeMessage_locals (pf'\<lparr> sentiment_analyze := (\<lambda>s. 0) \<rparr>) content) = 0.3)"
  using sentiment_contribution [of "\<lparr> sentiment_analyze = (\<lambda>s. - 4), toLowerCase = asciiLower \<rparr>" "utf16 ''awful''"]
    sentiment_contribution [of "\<lparr> sentiment_analyze = (\<lambda>s. - 10), toLowerCase = asciiLower \<rparr>" "utf16 ''awful''"]
  by (simp add: Let_def)

text \<open>
  Claim C3. For every argument, string or not, \<^verbatim>\<open>analyzeMessage\<close> returns an
  assessment whose score lies in \<open>[0, 1]\<close>: for a string that passes the guard the score
  is the accumulated total clamped above at 1, and the accumulated total is never
  negative.
\<close>

theorem riskScore_unit_interval:
  "\<exists>a. analyzeMessage pf now v = Inr a \<and> 0 \<le> riskScore a \<and> riskScore a \<le> 1 \<and>
       (\<forall>s. v = JString s \<and> s \<noteq> [] \<longrightarrow>
          riskScore a = min (totalRisk (analyzeMessage_locals pf s)) 1 \<and>
          0 \<le> totalRisk (analyzeMessage_locals pf s))"
  using analyzeMessage_cases [of v pf now] analyzeMessage_locals_nonneg [of pf]
  by (auto simp: analyzeMessage_body_def Let_def zeroAssessment_def)

lemma clamp_example_lower: "toLowerCase neutralPlatform (utf16 ''kill gun war stab hate nazi scum die'') = utf16 ''kill gun war stab hate nazi scum die''"
  by (simp add: neutralPlatform_def asciiLower_def utf16_def isUpperAZ_def)

lemma clamp_example_no_repeat: "\<not> repeat_regex_test (utf16 ''kill gun war stab hate nazi scum die'')"
  by (simp add: utf16_def lineTerminator_def replicate4)

lemma clamp_example_no_caps: "length (filter isUpperAZ (utf16 ''kill gun war stab hate nazi scum die'')) = 0"
  by (simp add: utf16_def isUpperAZ_def)

lemma clamp_example_categories: "(\<Sum>(c, ks) \<leftarrow> RISK_PATTERNS.
          min (real (length (filter (\<lambda>t. sublist t (utf16 ''kill gun war stab hate nazi scum die'')) ks)) * 0.15) 0.5) = 1.1"
  by (simp add: RISK_PATTERNS_def utf16_def js_includes_sublist [symmetric])

lemma clamp_example_totalRisk: "totalRisk (analyzeMessage_locals neutralPlatform (utf16 ''kill gun war stab hate nazi scum die'')) = 1.1"
  unfolding analyzeMessage_locals_totalRisk clamp_example_lower clamp_example_categories clamp_example_no_caps
  using clamp_example_no_repeat by (simp add: neutralPlatform_def)

theorem riskScore_unit_interval_witness:
  "analyzeMessage neutralPlatform ''now'' (JString (utf16 ''kill gun war stab hate nazi scum die''))
     = Inr (analyzeMessage_body neutralPlatform ''now'' (utf16 ''kill gun war stab hate nazi scum die'')) \<and>
   totalRisk (analyzeMessage_locals neutralPlatform (utf16 ''kill gun war stab hate nazi scum die'')) = 1.1 \<and>
   riskScore (analyzeMessage_body neutralPlatform ''now'' (utf16 ''kill gun war stab hate nazi scum die'')) = 1"
proof -
  have ne: "utf16 ''kill gun war stab hate nazi scum die'' \<noteq> []"
    by (simp add: utf16_def)
  from riskScore_unit_interval [of neutralPlatform "''now''" "JString (utf16 ''kill gun war stab hate nazi scum die'')"]
  show ?thesis
    using ne clamp_example_totalRisk by (auto simp: analyzeMessage_string)
qed

lemma analyzeMessage_body_riskScore:
  "riskScore (analyzeMessage_body pf now content) = min (totalRisk (analyzeMessage_locals pf content)) 1"
  by (simp add: analyzeMessage_body_def Let_def)

lemma analyzeMessage_body_flags:
  "flags (analyzeMessage_body pf now content) = set_spread [] (flags_acc (analyzeMessage_locals pf content))"
  by (simp add: analyzeMessage_body_def Let_def)

lemma category_matching_body:
  assumes mem: "(category, terms) \<in> set RISK_PATTERNS"
  shows "(let lowerContent = toLowerCase pf content;
              matched = filter (\<lambda>t. sublist t lowerContent) terms;
              n = card {t \<in> set terms. sublist t lowerContent};
              res = analyzeMessage_body pf now content
          in length matched = n \<and>
             (0 < n \<longrightarrow>
                category \<in> set (flags res) \<and>
                categories res category = Some \<lparr> count = n, words = matched \<rparr> \<and>
                (\<forall>st. check_category lowerContent (category, terms) st =
                   st\<lparr> categories_acc := (categories_acc st)(category \<mapsto> \<lparr> count = n, words = matched \<rparr>),
                       flags_acc := flags_acc st @ [category],
                       totalRisk := totalRisk st + min (real n * 0.15) 0.5 \<rparr>)) \<and>
             (n = 0 \<longrightarrow>
                category \<notin> set (flags res) \<and> categories res category = None \<and>
                (\<forall>st. check_category lowerContent (category, terms) st = st)) \<and>
             totalRisk (analyzeMessage_locals pf content) =
               (\<Sum>(c, ks) \<leftarrow> RISK_PATTERNS.
                  min (real (card {t \<in> set ks. sublist t lowerContent}) * 0.15) 0.5)
               + totalRisk (check_spam content (check_caps content
                   (add_sentiment_risk (sentiment_analyze pf content)
                      \<lparr> flags_acc = [], categories_acc = Map.empty, totalRisk = 0 \<rparr>))))"
proof -
  let ?lc = "toLowerCase pf content"
  let ?matched = "filter (\<lambda>t. sublist t ?lc) terms"
  have n: "card {t \<in> set terms. sublist t ?lc} = length ?matched"
    using RISK_PATTERNS_distinct_terms [OF mem] by (rule card_matching_terms)
  have flag: "category \<in> set (flags (analyzeMessage_body pf now content)) \<longleftrightarrow> ?matched \<noteq> []"
    using mem by (rule category_flag_iff)
  have cat: "categories (analyzeMessage_body pf now content) category =
               (if ?matched \<noteq> [] then Some \<lparr> count = length ?matched, words = ?matched \<rparr> else None)"
    using analyzeMessage_locals_categories [OF mem, of pf content]
    by (simp add: analyzeMessage_body_def Let_def)
  have step: "check_category ?lc (category, terms) st =
               (if ?matched \<noteq> []
                then st\<lparr> categories_acc :=
                           (categories_acc st)(category \<mapsto> \<lparr> count = length ?matched, words = ?matched \<rparr>),
                         flags_acc := flags_acc st @ [category],
                         totalRisk := totalRisk st + min (real (length ?matched) * 0.15) 0.5 \<rparr>
                else st)" for st
    by (simp add: check_category_eq Let_def)
  have sum: "(\<Sum>(c, ks) \<leftarrow> RISK_PATTERNS. min (real (card {t \<in> set ks. sublist t ?lc}) * 0.15) 0.5)
           = (\<Sum>(c, ks) \<leftarrow> RISK_PATTERNS. min (real (length (filter (\<lambda>t. sublist t ?lc) ks)) * 0.15) 0.5)"
    by (rule sum_list_cong_pairs) (simp add: card_matching_terms [OF RISK_PATTERNS_distinct_terms])
  have total: "totalRisk (analyzeMessage_locals pf content) =
      (\<Sum>(c, ks) \<leftarrow> RISK_PATTERNS. min (real (card {t \<in> set ks. sublist t ?lc}) * 0.15) 0.5)
      + totalRisk (check_spam content (check_caps content
           (add_sentiment_risk (sentiment_analyze pf content)
              \<lparr> flags_acc = [], categories_acc = Map.empty, totalRisk = 0 \<rparr>)))"
    unfolding sum
    by (simp only: analyzeMessage_locals_totalRisk check_spam_totalRisk check_caps_totalRisk
        add_sentiment_risk_totalRisk analysis_state.simps add_0 add.assoc add.left_commute add.commute)
  have pos: "0 < length ?matched \<longleftrightarrow> ?matched \<noteq> []" by simp
  show ?thesis
    unfolding Let_def n
  proof (intro conjI impI allI)
    show "length ?matched = length ?matched" ..
  next
    assume "0 < length ?matched"
    then show "category \<in> set (flags (analyzeMessage_body pf now content))"
      using flag by simp
  next
    assume "0 < length ?matched"
    then show "categories (analyzeMessage_body pf now content) category =
                 Some \<lparr> count = length ?matched, words = ?matched \<rparr>"
      using cat by simp
  next
    fix st
    assume "0 < length ?matched"
    then show "check_category ?lc (category, terms) st =
        st\<lparr> categories_acc :=
               (categories_acc st)(category \<mapsto> \<lparr> count = length ?matched, words = ?matched \<rparr>),
            flags_acc := flags_acc st @ [category],
            totalRisk := totalRisk st + min (real (length ?matched) * 0.15) 0.5 \<rparr>"
      using step [of st] by simp
  next
    assume "length ?matched = 0"
    then show "category \<notin> set (flags (analyzeMessage_body pf now content))"
      using flag by simp
  next
    assume "length ?matched = 0"
    then show "categories (analyzeMessage_body pf now content) category = None"
      using cat by simp
  next
    fix st
    assume "length ?matched = 0"
    then show "check_category ?lc (category, terms) st = st"
      using step [of st] by simp
  next
    show "totalRisk (analyzeMessage_locals pf content) =
      (\<Sum>(c, ks) \<leftarrow> RISK_PATTERNS. min (real (card {t \<in> set ks. sublist t ?lc}) * 0.15) 0.5)
      + totalRisk (check_spam content (check_caps content
           (add_sentiment_risk (sentiment_analyze pf content)
              \<lparr> flags_acc = [], categories_acc = Map.empty, totalRisk = 0 \<rparr>)))"
      by (rule total)
  qed
qed

text \<open>
  Claim C5. For every non-empty string content and every entry of the lexicon,
  \<^verbatim>\<open>analyzeMessage\<close> returns an assessment \<open>res\<close> such that, with \<open>n\<close> the number
  of distinct terms of the category that occur as substrings of the lower-cased content
  (it equals the number of matched keywords, each keyword being tested once): when
  \<open>n > 0\<close> the category is among the flags of \<open>res\<close>, the categories of \<open>res\<close> hold
  the entry with count \<open>n\<close> and the matched terms in order, and the step for the
  category adds exactly \<open>min (n * 0.15) 0.5\<close> to the accumulator; when \<open>n = 0\<close> the
  category is neither flagged nor entered and the step changes nothing. The categories
  contribute independently: the score of \<open>res\<close> is the clamp of the accumulated total,
  which is the sum of the contributions of all categories plus what the other channels
  add.
\<close>

theorem category_matching:
  assumes mem: "(category, terms) \<in> set RISK_PATTERNS" and ne: "content \<noteq> []"
  shows "\<exists>res. analyzeMessage pf now (JString content) = Inr res \<and>
         (let lowerContent = toLowerCase pf content;
              matched = filter (\<lambda>t. sublist t lowerContent) terms;
              n = card {t \<in> set terms. sublist t lowerContent}
          in length matched = n \<and>
             (0 < n \<longrightarrow>
                category \<in> set (flags res) \<and>
                categories res category = Some \<lparr> count = n, words = matched \<rparr> \<and>
                (\<forall>st. check_category lowerContent (category, terms) st =
                   st\<lparr> categories_acc := (categories_acc st)(category \<mapsto> \<lparr> count = n, words = matched \<rparr>),
                       flags_acc := flags_acc st @ [category],
                       totalRisk := totalRisk st + min (real n * 0.15) 0.5 \<rparr>)) \<and>
             (n = 0 \<longrightarrow>
                category \<notin> set (flags res) \<and> categories res category = None \<and>
                (\<forall>st. check_category lowerContent (category, terms) st = st)) \<and>
             riskScore res =
               min ((\<Sum>(c, ks) \<leftarrow> RISK_PATTERNS.
                       min (real (card {t \<in> set ks. sublist t lowerContent}) * 0.15) 0.5)
                    + totalRisk (check_spam content (check_caps content
                        (add_sentiment_risk (sentiment_analyze pf content)
                           \<lparr> flags_acc = [], categories_acc = Map.empty, totalRisk = 0 \<rparr>)))) 1)"
proof (intro exI conjI)
  show "analyzeMessage pf now (JString content) = Inr (analyzeMessage_body pf now content)"
    using ne by (rule analyzeMessage_string)
next
  note body = category_matching_body [OF mem, of pf content now, unfolded Let_def]
  have total: "totalRisk (analyzeMessage_locals pf content) =
      (\<Sum>(c, ks) \<leftarrow> RISK_PATTERNS.
          min (real (card {t \<in> set ks. sublist t (toLowerCase pf content)}) * 0.15) 0.5)
      + totalRisk (check_spam content (check_caps content
           (add_sentiment_risk (sentiment_analyze pf content)
              \<lparr> flags_acc = [], categories_acc = Map.empty, totalRisk = 0 \<rparr>)))"
    using body by blast
  have score: "riskScore (analyzeMessage_body pf now content) =
      min ((\<Sum>(c, ks) \<leftarrow> RISK_PATTERNS.
              min (real (card {t \<in> set ks. sublist t (toLowerCase pf content)}) * 0.15) 0.5)
           + totalRisk (check_spam content (check_caps content
               (add_sentiment_risk (sentiment_analyze pf content)
                  \<lparr> flags_acc = [], categories_acc = Map.empty, totalRisk = 0 \<rparr>)))) 1"
    unfolding analyzeMessage_body_riskScore total ..
  show "(let lowerContent = toLowerCase pf content;
              matched = filter (\<lambda>t. sublist t lowerContent) terms;
              n = card {t \<in> set terms. sublist t lowerContent}
          in length matched = n \<and>
             (0 < n \<longrightarrow>
                category \<in> set (flags (analyzeMessage_body pf now content)) \<and>
                categories (analyzeMessage_body pf now content) category
                  = Some \<lparr> count = n, words = matched \<rparr> \<and>
                (\<forall>st. check_category lowerContent (category, terms) st =
                   st\<lparr> categories_acc := (categories_acc st)(category \<mapsto> \<lparr> count = n, words = matched \<rparr>),
                       flags_acc := flags_acc st @ [category],
                       totalRisk := totalRisk st + min (real n * 0.15) 0.5 \<rparr>)) \<and>
             (n = 0 \<longrightarrow>
                category \<notin> set (flags (analyzeMessage_body pf now content)) \<and>
                categories (analyzeMessage_body pf now content) category = None \<and>
                (\<forall>st. check_category lowerContent (category, terms) st = st)) \<and>
             riskScore (analyzeMessage_body pf now content) =
               min ((\<Sum>(c, ks) \<leftarrow> RISK_PATTERNS.
                       min (real (card {t \<in> set ks. sublist t lowerContent}) * 0.15) 0.5)
                    + totalRisk (check_spam content (check_caps content
                        (add_sentiment_risk (sentiment_analyze pf content)
                           \<lparr> flags_acc = [], categories_acc = Map.empty, totalRisk = 0 \<rparr>)))) 1)"
    unfolding Let_def
    using body score by blast
qed

theorem category_matching_witness:
  "(''threats'',
      [utf16 ''threat'', utf16 ''threaten'', utf16 ''going to'', utf16 ''will kill'',
       utf16 ''watch out'', utf16 ''pay for'', utf16 ''revenge'', utf16 ''retaliate'',
       utf16 ''get you'', utf16 ''coming for'']) \<in> set RISK_PATTERNS \<and>
   utf16 ''Watch out, I am coming for you'' \<noteq> [] \<and>
   \<not> isl (analyzeMessage neutralPlatform ''now'' (JString (utf16 ''Watch out, I am coming for you''))) \<and>
   ''threats'' \<in> set (flags (projr (analyzeMessage neutralPlatform ''now''
                                 (JString (utf16 ''Watch out, I am coming for you''))))) \<and>
   categories (projr (analyzeMessage neutralPlatform ''now''
                        (JString (utf16 ''Watch out, I am coming for you''))))
       ''threats'' = Some \<lparr> count = 2, words = [utf16 ''watch out'', utf16 ''coming for''] \<rparr>"
proof -
  let ?terms = "[utf16 ''threat'', utf16 ''threaten'', utf16 ''going to'', utf16 ''will kill'',
       utf16 ''watch out'', utf16 ''pay for'', utf16 ''revenge'', utf16 ''retaliate'',
       utf16 ''get you'', utf16 ''coming for'']"
  have mem: "(''threats'', ?terms) \<in> set RISK_PATTERNS"
    by (simp add: RISK_PATTERNS_def)
  have ne: "utf16 ''Watch out, I am coming for you'' \<noteq> []"
    by (simp add: utf16_def)
  have lower: "toLowerCase neutralPlatform (utf16 ''Watch out, I am coming for you'')
                 = utf16 ''watch out, i am coming for you''"
    by (simp add: neutralPlatform_def asciiLower_def utf16_def isUpperAZ_def)
  have matched: "filter (\<lambda>t. sublist t (utf16 ''watch out, i am coming for you'')) ?terms
                   = [utf16 ''watch out'', utf16 ''coming for'']"
    by (simp add: utf16_def js_includes_sublist [symmetric])
  let ?lc = "utf16 ''watch out, i am coming for you''"
  let ?n = "card {t \<in> set ?terms. sublist t ?lc}"
  let ?matched = "[utf16 ''watch out'', utf16 ''coming for'']"
  from category_matching [OF mem ne, of neutralPlatform "''now''", unfolded Let_def lower matched]
  obtain res where res: "analyzeMessage neutralPlatform ''now''
                           (JString (utf16 ''Watch out, I am coming for you'')) = Inr res"
    and n: "length ?matched = ?n"
    and pos: "0 < ?n \<longrightarrow>
              ''threats'' \<in> set (flags res) \<and>
              categories res ''threats'' = Some \<lparr> count = ?n, words = ?matched \<rparr> \<and>
              (\<forall>st. check_category ?lc (''threats'', ?terms) st =
                 st\<lparr> categories_acc := (categories_acc st)(''threats'' \<mapsto> \<lparr> count = ?n, words = ?matched \<rparr>),
                     flags_acc := flags_acc st @ [''threats''],
                     totalRisk := totalRisk st + min (real ?n * 0.15) 0.5 \<rparr>)"
    by (elim exE conjE) (rule that, assumption+)
  from n have n2: "?n = 2"
    by simp
  from pos have "''threats'' \<in> set (flags res) \<and>
                 categories res ''threats'' = Some \<lparr> count = 2, words = ?matched \<rparr>"
    unfolding n2 by simp
  with mem ne res show ?thesis by simp
qed

subsection \<open>The behavioural heuristics\<close>

lemma line_feeds_lower: "toLowerCase neutralPlatform [0x0A, 0x0A, 0x0A, 0x0A, 0x0A] = [0x0A, 0x0A, 0x0A, 0x0A, 0x0A]"
  by (simp add: neutralPlatform_def asciiLower_def isUpperAZ_def)

lemma line_feeds_no_category:
  "filter (\<lambda>(c, ks). filter (\<lambda>t. sublist t [0x0A, 0x0A, 0x0A, 0x0A, 0x0A]) ks \<noteq> []) RISK_PATTERNS = []"
  by (simp add: RISK_PATTERNS_def utf16_def js_includes_sublist [symmetric])

lemma line_feeds_regex: "\<not> repeat_regex_test [0x0A, 0x0A, 0x0A, 0x0A, 0x0A]"
  by (simp add: lineTerminator_def replicate4)

lemma line_feeds_flags:
  "flags (analyzeMessage_body neutralPlatform ''now'' [0x0A, 0x0A, 0x0A, 0x0A, 0x0A]) = []"
  unfolding analyzeMessage_body_flags analyzeMessage_locals_flags line_feeds_lower line_feeds_no_category
  using line_feeds_regex by (simp add: isUpperAZ_def)

lemma letters_lower: "toLowerCase neutralPlatform (utf16 ''ooooo'') = utf16 ''ooooo''"
  by (simp add: neutralPlatform_def asciiLower_def utf16_def isUpperAZ_def)

lemma letters_no_category:
  "filter (\<lambda>(c, ks). filter (\<lambda>t. sublist t (utf16 ''ooooo'')) ks \<noteq> []) RISK_PATTERNS = []"
  by (simp add: RISK_PATTERNS_def utf16_def js_includes_sublist [symmetric])

lemma letters_regex: "repeat_regex_test (utf16 ''ooooo'')"
  by (simp add: utf16_def lineTerminator_def replicate4)

lemma letters_flags:
  "flags (analyzeMessage_body neutralPlatform ''now'' (utf16 ''ooooo'')) = [''spam_pattern'']"
  unfolding analyzeMessage_body_flags analyzeMessage_locals_flags letters_lower letters_no_category
  using letters_regex by (simp add: isUpperAZ_def utf16_def)

text \<open>
  Claim C6. The claim asks for \<^verbatim>\<open>spam_pattern\<close> whenever any character repeats five
  or more times consecutively. The code tests \<^verbatim>\<open>/(.)\1{4,}/\<close>, whose dot does not
  match a line terminator: on a message of five line feeds, in which a character is
  repeated five times, \<^verbatim>\<open>analyzeMessage\<close> returns an assessment with no flag at all,
  while on five copies of the letter o it returns the flag \<^verbatim>\<open>spam_pattern\<close>.
\<close>

theorem line_feed_run_not_flagged:
  "spec_any_char_repeats5 [0x0A, 0x0A, 0x0A, 0x0A, 0x0A] \<and>
   \<not> isl (analyzeMessage neutralPlatform ''now'' (JString [0x0A, 0x0A, 0x0A, 0x0A, 0x0A])) \<and>
   flags (projr (analyzeMessage neutralPlatform ''now'' (JString [0x0A, 0x0A, 0x0A, 0x0A, 0x0A]))) = [] \<and>
   spec_any_char_repeats5 (utf16 ''ooooo'') \<and>
   flags (projr (analyzeMessage neutralPlatform ''now'' (JString (utf16 ''ooooo'')))) = [''spam_pattern'']"
proof -
  have run: "spec_any_char_repeats5 [0x0A, 0x0A, 0x0A, 0x0A, 0x0A]"
    by (simp add: replicate4)
  have run': "spec_any_char_repeats5 (utf16 ''ooooo'')"
    by (simp add: utf16_def replicate4)
  have lf: "analyzeMessage neutralPlatform ''now'' (JString [0x0A, 0x0A, 0x0A, 0x0A, 0x0A])
              = Inr (analyzeMessage_body neutralPlatform ''now'' [0x0A, 0x0A, 0x0A, 0x0A, 0x0A])"
    by (rule analyzeMessage_string) simp
  have oo: "analyzeMessage neutralPlatform ''now'' (JString (utf16 ''ooooo''))
              = Inr (analyzeMessage_body neutralPlatform ''now'' (utf16 ''ooooo''))"
    by (rule analyzeMessage_string) (simp add: utf16_def)
  show ?thesis
    unfolding lf oo using run run' by (simp add: line_feeds_flags letters_flags)
qed

theorem line_feed_run_not_flagged_witness:
  "spec_any_char_repeats5 [0x0A, 0x0A, 0x0A, 0x0A, 0x0A] \<and>
   ''spam_pattern'' \<notin> set (flags (projr (analyzeMessage neutralPlatform ''now''
                                               (JString [0x0A, 0x0A, 0x0A, 0x0A, 0x0A])))) \<and>
   ''spam_pattern'' \<in> set (flags (projr (analyzeMessage neutralPlatform ''now''
                                               (JString (utf16 ''ooooo'')))))"
  using line_feed_run_not_flagged by simp

end
